theory Spec2Isabelle
  imports Complex_Main "HOL-Library.Sublist"
begin

section \<open>Strings\<close>

text \<open>
  Python strings are modelled as \<open>string\<close> (lists of 8-bit characters, read as the code
  points 0 to 255). On that range \<open>str.strip\<close> removes exactly the twelve white-space
  code points below, \<open>\d\<close> matches exactly the ASCII digits, and a case-insensitive match
  against an ASCII letter accepts exactly its two ASCII variants.
\<close>

definition is_space :: "char \<Rightarrow> bool" where
  "is_space c = (c \<in> set [CHR 0x09, CHR 0x0A, CHR 0x0B, CHR 0x0C, CHR 0x0D, CHR 0x1C, CHR 0x1D,
                           CHR 0x1E, CHR 0x1F, CHR 0x20, CHR 0x85, CHR 0xA0])"

definition strip :: "string \<Rightarrow> string" where
  "strip s = rev (dropWhile is_space (rev (dropWhile is_space s)))"

definition is_digit :: "char \<Rightarrow> bool" where
  "is_digit c = (c \<in> set ''0123456789'')"

definition lower :: "char \<Rightarrow> char" where
  "lower c = (case map_of (zip ''ABCDEFGHIJKLMNOPQRSTUVWXYZ'' ''abcdefghijklmnopqrstuvwxyz'') c of
                None \<Rightarrow> c | Some l \<Rightarrow> l)"

text \<open>\<open>sub in s\<close>: the substring test of Python.\<close>

fun py_in :: "string \<Rightarrow> string \<Rightarrow> bool" where
  "py_in sub [] = (sub = [])"
| "py_in sub (c # cs) = (take (length sub) (c # cs) = sub \<or> py_in sub cs)"

text \<open>
  \<open>re.compile(label_text, re.IGNORECASE).search(s)\<close>. Every pattern the crawler passes is
  made of letters and spaces only, so the regular expression is a case-insensitive
  substring search.
\<close>

definition re_search_ignorecase :: "string \<Rightarrow> string \<Rightarrow> bool" where
  "re_search_ignorecase pat s = py_in (map lower pat) (map lower s)"

text \<open>\<open>sep.join(parts)\<close>.\<close>

fun join :: "string \<Rightarrow> string list \<Rightarrow> string" where
  "join sep [] = []"
| "join sep [x] = x"
| "join sep (x # y # ys) = x @ sep @ join sep (y # ys)"

text \<open>\<open>xs[:n]\<close> for a Python integer \<open>n\<close>: a negative bound counts from the end.\<close>

definition py_slice_to :: "int \<Rightarrow> 'a list \<Rightarrow> 'a list" where
  "py_slice_to n xs = (if 0 \<le> n then take (nat n) xs else take (length xs - nat (- n)) xs)"

section \<open>Exceptions\<close>

text \<open>
  The exceptions that matter to the control flow: a Playwright timeout, any other
  \<open>Exception\<close>, and the cancellation that \<open>asyncio.wait_for\<close> delivers to the suspended unit
  when the 60 second ceiling of \<open>process_wo_safe\<close> expires (a \<open>BaseException\<close>, which
  \<open>except Exception\<close> does not catch). A call either returns a value or an exception
  leaves it.
\<close>

datatype exc = TimeoutExc | OtherExc | CancelledExc

datatype 'a completion = Returns 'a | Propagates exc

fun returned :: "'a completion \<Rightarrow> 'a option" where
  "returned (Returns a) = Some a"
| "returned (Propagates e) = None"

section \<open>The parsed document\<close>

text \<open>
  The tree BeautifulSoup builds: a tag has a name, its attribute dictionary and its
  children; \<open>Text\<close> is a NavigableString (or CData), which \<open>get_text\<close> collects, and
  \<open>Comment\<close> stands for the string classes \<open>get_text\<close> skips. The parser of the markup is a
  library: it is a parameter \<open>parser\<close>, giving the top-level nodes of the soup for a text,
  or \<open>None\<close> for a text it rejects; the constructor \<open>BeautifulSoup(text, 'html.parser')\<close> then
  raises.
\<close>

datatype node = Text string | Comment string | Elem string "(string \<times> string) list" "node list"

type_synonym html_parser = "string \<Rightarrow> node list option"

definition BeautifulSoup :: "html_parser \<Rightarrow> string \<Rightarrow> node option" where
  "BeautifulSoup parser html =
     (case parser html of None \<Rightarrow> None | Some nodes \<Rightarrow> Some (Elem ''[document]'' [] nodes))"

text \<open>The value of a multi-valued attribute is split on white space.\<close>

fun split_ws :: "string \<Rightarrow> string \<Rightarrow> string list" where
  "split_ws cur [] = (if cur = [] then [] else [cur])"
| "split_ws cur (c # cs) =
     (if is_space c then (if cur = [] then split_ws [] cs else cur # split_ws [] cs)
      else split_ws (cur @ [c]) cs)"

definition classes :: "(string \<times> string) list \<Rightarrow> string list" where
  "classes attrs = (case map_of attrs ''class'' of None \<Rightarrow> [] | Some v \<Rightarrow> split_ws [] v)"

text \<open>The test of \<open>find(name, class_=cls)\<close> on one node.\<close>

fun is_tag :: "string \<Rightarrow> string \<Rightarrow> node \<Rightarrow> bool" where
  "is_tag name cls (Elem n attrs kids) = (n = name \<and> cls \<in> set (classes attrs))"
| "is_tag name cls _ = False"

fun is_named :: "string \<Rightarrow> node \<Rightarrow> bool" where
  "is_named name (Elem n attrs kids) = (n = name)"
| "is_named name _ = False"

text \<open>
  The descendants of a tag in document order, each with its chain of parents, nearest
  first (the order in which \<open>find_parent\<close> visits them).
\<close>

fun walk :: "node list \<Rightarrow> node \<Rightarrow> (node \<times> node list) list" where
  "walk anc (Elem n attrs kids) =
     concat (map (\<lambda>k. (k, Elem n attrs kids # anc) # walk (Elem n attrs kids # anc) k) kids)"
| "walk anc _ = []"

definition descendants :: "node \<Rightarrow> node list" where
  "descendants t = map fst (walk [] t)"

text \<open>\<open>tag.string\<close>: the single string below a tag, if there is exactly one path to it.\<close>

fun string_of :: "node \<Rightarrow> string option" where
  "string_of (Text s) = Some s"
| "string_of (Comment s) = Some s"
| "string_of (Elem n attrs kids) = (case kids of [k] \<Rightarrow> string_of k | _ \<Rightarrow> None)"

fun strings :: "node \<Rightarrow> string list" where
  "strings (Text s) = [s]"
| "strings (Comment s) = []"
| "strings (Elem n attrs kids) = concat (map strings kids)"

text \<open>\<open>tag.get_text(strip=True, separator=sep)\<close>.\<close>

definition get_text :: "string \<Rightarrow> node \<Rightarrow> string" where
  "get_text sep t = join sep (filter (\<lambda>s. s \<noteq> []) (map strip (strings t)))"

section \<open>Label-based extraction\<close>

definition is_label :: "string \<Rightarrow> node \<Rightarrow> bool" where
  "is_label label_text n =
     (is_tag ''span'' ''ps-field--label'' n \<and>
      (case string_of n of None \<Rightarrow> False | Some s \<Rightarrow> re_search_ignorecase label_text s))"

text \<open>
  \<open>soup.find('span', class_='ps-field--label', string=re.compile(label_text, re.IGNORECASE))\<close>
  followed by \<open>label.find_parent('div', class_='ps-field')\<close>: the three helpers start with
  this pivot from the first matching label to its nearest field container.
\<close>

definition find_label :: "node \<Rightarrow> string \<Rightarrow> (node \<times> node list) option" where
  "find_label soup label_text = List.find (\<lambda>(n, anc). is_label label_text n) (walk [] soup)"

definition field_div :: "node \<Rightarrow> string \<Rightarrow> node option" where
  "field_div soup label_text =
     (case find_label soup label_text of
        None \<Rightarrow> None
      | Some (label, anc) \<Rightarrow> List.find (is_tag ''div'' ''ps-field'') anc)"

definition extract_field_by_label :: "node \<Rightarrow> string \<Rightarrow> string option" where
  "extract_field_by_label soup label_text =
     (case field_div soup label_text of
        None \<Rightarrow> None
      | Some fd \<Rightarrow>
          (case List.find (is_tag ''span'' ''ps-field--value'') (descendants fd) of
             None \<Rightarrow> None
           | Some value_span \<Rightarrow>
               (let text = get_text '' '' value_span in if text \<noteq> [] then Some text else None)))"

definition person_names :: "node \<Rightarrow> string list" where
  "person_names person_list =
     concat (map (\<lambda>li.
        (case List.find (is_tag ''span'' ''biblio-person-list--name'') (descendants li) of
           None \<Rightarrow> []
         | Some name_span \<Rightarrow> (let name = get_text [] name_span in if name \<noteq> [] then [name] else [])))
       (filter (is_named ''li'') (descendants person_list)))"

definition extract_list_field :: "node \<Rightarrow> string \<Rightarrow> string list" where
  "extract_list_field soup label_text =
     (case field_div soup label_text of
        None \<Rightarrow> []
      | Some fd \<Rightarrow>
          (case List.find (is_tag ''ul'' ''biblio-person-list'') (descendants fd) of
             None \<Rightarrow> []
           | Some person_list \<Rightarrow> person_names person_list))"

definition extract_ipc_codes :: "node \<Rightarrow> string list" where
  "extract_ipc_codes soup =
     (case field_div soup ''IPC'' of
        None \<Rightarrow> []
      | Some fd \<Rightarrow>
          concat (map (\<lambda>classification.
             (case List.find (is_named ''a'') (descendants classification) of
                None \<Rightarrow> []
              | Some link \<Rightarrow> (let code = get_text [] link in if code \<noteq> [] then [code] else [])))
            (filter (is_tag ''div'' ''patent-classification'') (descendants fd))))"

section \<open>Record assembly\<close>

text \<open>
  The values stored in the \<open>biblio_data\<close> dictionary, and the dictionary \<open>parse_biblio_data\<close>
  returns. \<open>biblio_data\<close> keeps its keys in insertion order; the empty list is \<open>{}\<close>.
\<close>

datatype pyval = PNone | PStr string | PList "string list"

record biblio_record =
  wo_number :: string
  source :: string
  extraction_successful :: bool
  biblio_data :: "(string \<times> pyval) list"

fun opt_val :: "string option \<Rightarrow> pyval" where
  "opt_val None = PNone"
| "opt_val (Some s) = PStr s"

text \<open>The truth value Python gives an optional string: \<open>None\<close> and \<open>''\<close> are false.\<close>

fun truthy :: "string option \<Rightarrow> bool" where
  "truthy None = False"
| "truthy (Some s) = (s \<noteq> [])"

text \<open>
  The lookups above are total on the tree, so the handlers inside the three helpers are
  never entered. The handler of \<open>parse_biblio_data\<close> itself is kept: \<open>interrupt\<close> says
  whether an exception reaches it, and whether it was raised before the assignment to
  \<open>data["biblio_data"]\<close> or after it (by the logging calls that follow the assignment of the
  success flag). The constructor of the soup (line 314) stands before the \<open>try\<close>: when it
  raises, the exception leaves \<open>parse_biblio_data\<close>.
\<close>

datatype interrupt = Completes | RaisesBeforeAssembly | RaisesAfterAssembly

definition parse_biblio_data ::
  "html_parser \<Rightarrow> interrupt \<Rightarrow> string \<Rightarrow> string \<Rightarrow> biblio_record completion" where
  "parse_biblio_data parser intr html wo =
     (case BeautifulSoup parser html of
        None \<Rightarrow> Propagates OtherExc
      | Some soup \<Rightarrow> Returns
     (let data = \<lparr>wo_number = wo, source = ''WIPO'', extraction_successful = False,
                  biblio_data = []\<rparr>
      in if intr = RaisesBeforeAssembly then data
         else
           let pub_number = extract_field_by_label soup ''Publication Number'';
               pub_date = extract_field_by_label soup ''Publication Date'';
               app_number = extract_field_by_label soup ''International Application No'';
               filing_date = extract_field_by_label soup ''International Filing Date'';
               title = extract_field_by_label soup ''Title'';
               abstract = extract_field_by_label soup ''Abstract'';
               priority = extract_field_by_label soup ''Priority Data'';
               applicants = extract_list_field soup ''Applicants'';
               inventors = extract_list_field soup ''Inventors'';
               ipc_codes = extract_ipc_codes soup;
               cpc_codes = (if py_in ''CPC'' html then extract_ipc_codes soup else []);
               data1 = data\<lparr>biblio_data :=
                 [(''publication_number'', opt_val pub_number),
                  (''publication_date'', opt_val pub_date),
                  (''application_number'', opt_val app_number),
                  (''filing_date'', opt_val filing_date),
                  (''title'', opt_val title),
                  (''abstract'', opt_val abstract),
                  (''applicants'', PList applicants),
                  (''inventors'', PList inventors),
                  (''ipc_codes'', PList ipc_codes),
                  (''cpc_codes'', PList cpc_codes),
                  (''priority_data'', opt_val priority)]\<rparr>
           in if truthy pub_number \<and> truthy title
              then data1\<lparr>extraction_successful := True\<rparr> else data1))"

text \<open>\<open>record["biblio_data"].get(key)\<close>: reading one field of a returned record.\<close>

definition field :: "biblio_record \<Rightarrow> string \<Rightarrow> pyval option" where
  "field r key = map_of (biblio_data r) key"

text \<open>A field is present when it holds a non-empty string.\<close>

fun present :: "pyval option \<Rightarrow> bool" where
  "present (Some (PStr s)) = (s \<noteq> [])"
| "present _ = False"

section \<open>Identifier discovery\<close>

text \<open>
  \<open>re.search(r'docId=(WO\d{4}\d{6})', href)\<close>: the pattern has a fixed length of 18
  characters, so the search returns group 1 of the leftmost position where it matches.
\<close>

definition docId_at :: "string \<Rightarrow> bool" where
  "docId_at s = (take 8 s = ''docId=WO'' \<and> 18 \<le> length s \<and> list_all is_digit (take 10 (drop 8 s)))"

fun re_search_docId :: "string \<Rightarrow> string option" where
  "re_search_docId [] = None"
| "re_search_docId (c # cs) =
     (if docId_at (c # cs) then Some (take 12 (drop 6 (c # cs))) else re_search_docId cs)"

fun href :: "node \<Rightarrow> string option" where
  "href (Elem n attrs kids) = (if n = ''a'' then map_of attrs ''href'' else None)"
| "href _ = None"

text \<open>The loop over \<open>soup.find_all('a', href=True)\<close>.\<close>

definition link_wo_numbers :: "node \<Rightarrow> string list" where
  "link_wo_numbers soup =
     concat (map (\<lambda>link.
        (case href link of
           None \<Rightarrow> []
         | Some h \<Rightarrow>
             (if py_in ''detail.jsf?docId='' h
              then (case re_search_docId h of None \<Rightarrow> [] | Some m \<Rightarrow> [m]) else [])))
       (descendants soup))"

text \<open>
  \<open>list(dict.fromkeys(xs))\<close>: the keys are inserted one by one, and a key that is already
  in the dictionary keeps its place.
\<close>

definition dict_fromkeys :: "'a list \<Rightarrow> 'a list" where
  "dict_fromkeys xs = foldl (\<lambda>d k. if k \<in> set d then d else d @ [k]) [] xs"

text \<open>
  The search request: \<open>http\<close> maps the \<open>query\<close> parameter to the body of a successful
  response, or to \<open>None\<close> when the request or \<open>raise_for_status\<close> raises. The soup is built
  inside the \<open>try\<close>, so a rejected body gives the empty list as well.
\<close>

type_synonym http_get = "string \<Rightarrow> string option"

definition search_query :: "string \<Rightarrow> string list option \<Rightarrow> string option \<Rightarrow> string" where
  "search_query molecule dev_codes cas =
     (let query_parts = [molecule]
            @ (case dev_codes of None \<Rightarrow> [] | Some ds \<Rightarrow> take 3 ds)
            @ (case cas of None \<Rightarrow> [] | Some c \<Rightarrow> if c \<noteq> [] then [c] else [])
      in ''FP:('' @ join '' OR '' query_parts @ '')'')"

definition search_wipo_wo_numbers ::
  "html_parser \<Rightarrow> http_get \<Rightarrow> string \<Rightarrow> string list option \<Rightarrow> string option \<Rightarrow> int \<Rightarrow> string list" where
  "search_wipo_wo_numbers parser http molecule dev_codes cas max_results =
     (case http (search_query molecule dev_codes cas) of
        None \<Rightarrow> []
      | Some text \<Rightarrow>
          (case BeautifulSoup parser text of
             None \<Rightarrow> []
           | Some soup \<Rightarrow> py_slice_to max_results (dict_fromkeys (link_wo_numbers soup))))"

text \<open>
  The wording of the specification: deduplicate preserving first-seen order, that is,
  keep the first occurrence of every identifier and drop the later ones.
\<close>

fun first_seen :: "'a list \<Rightarrow> 'a list" where
  "first_seen [] = []"
| "first_seen (x # xs) = x # first_seen (filter (\<lambda>y. y \<noteq> x) xs)"

section \<open>Page acquisition\<close>

text \<open>
  The browser is the environment of \<open>fetch_detail_html\<close>. Every awaited call either
  completes or raises one of the three exceptions.
\<close>

datatype outcome = Ok | Raises exc

text \<open>
  The awaited calls of \<open>fetch_detail_html\<close>. \<open>browser.close()\<close> is called at four places,
  told apart by their source line; \<open>Start\<close> and \<open>Stop\<close> are the entry and the exit of the
  context manager of \<open>async with async_playwright()\<close>.
\<close>

datatype pw_call =
    Start | Launch | NewContext | NewPage | Goto string | NetworkIdle | Selector | Content
  | Close nat | Stop

datatype log = NetworkIdleTimeout | NeverAppeared | Loaded | TimeoutLoading | ErrorLoading
  | InitFailed

datatype event = Call pw_call outcome | Log log

record unit_env =
  outcome_of :: "pw_call \<Rightarrow> outcome"
  page_html :: string
  interrupt_of :: interrupt

text \<open>
  A computation yields the events it caused, in order, and either a value or the
  exception that leaves it.
\<close>

type_synonym 'a run = "event list \<times> 'a completion"

definition seq :: "'a run \<Rightarrow> ('a \<Rightarrow> 'b run) \<Rightarrow> 'b run" where
  "seq m f =
     (case m of
        (t, Propagates e) \<Rightarrow> (t, Propagates e)
      | (t, Returns a) \<Rightarrow> (case f a of (t', r) \<Rightarrow> (t @ t', r)))"

definition try_except :: "'a run \<Rightarrow> (exc \<Rightarrow> 'a run option) \<Rightarrow> 'a run" where
  "try_except m handler =
     (case m of
        (t, Returns a) \<Rightarrow> (t, Returns a)
      | (t, Propagates e) \<Rightarrow>
          (case handler e of None \<Rightarrow> (t, Propagates e) | Some (t', r) \<Rightarrow> (t @ t', r)))"

definition return :: "'a \<Rightarrow> 'a run" where
  "return a = ([], Returns a)"

definition raise :: "exc \<Rightarrow> 'a run" where
  "raise e = ([], Propagates e)"

definition logger :: "log \<Rightarrow> unit run" where
  "logger l = ([Log l], Returns ())"

definition attempt :: "unit_env \<Rightarrow> pw_call \<Rightarrow> outcome run" where
  "attempt env c = ([Call c (outcome_of env c)], Returns (outcome_of env c))"

definition await :: "unit_env \<Rightarrow> pw_call \<Rightarrow> unit run" where
  "await env c = seq (attempt env c) (\<lambda>r. case r of Ok \<Rightarrow> return () | Raises e \<Rightarrow> raise e)"

definition DETAIL_URL :: string where
  "DETAIL_URL = ''https://patentscope.wipo.int/search/en/detail.jsf''"

text \<open>The body of the inner \<open>try\<close> (lines 135 to 163).\<close>

definition page_body :: "unit_env \<Rightarrow> string \<Rightarrow> string option run" where
  "page_body env wo =
     seq (await env (Goto (DETAIL_URL @ ''?docId='' @ wo))) (\<lambda>_.
     seq (seq (attempt env NetworkIdle) (\<lambda>r. case r of
            Ok \<Rightarrow> return ()
          | Raises TimeoutExc \<Rightarrow> logger NetworkIdleTimeout
          | Raises e \<Rightarrow> raise e)) (\<lambda>_.
     seq (attempt env Selector) (\<lambda>r. case r of
            Raises TimeoutExc \<Rightarrow>
              seq (logger NeverAppeared) (\<lambda>_. seq (await env (Close 155)) (\<lambda>_. return None))
          | Raises e \<Rightarrow> raise e
          | Ok \<Rightarrow>
              seq (await env Content) (\<lambda>_.
              seq (await env (Close 160)) (\<lambda>_.
              seq (logger Loaded) (\<lambda>_. return (Some (page_html env))))))))"

text \<open>The body of \<open>async with\<close>: session set-up, then the inner \<open>try\<close> with its two handlers.\<close>

definition session :: "unit_env \<Rightarrow> string \<Rightarrow> string option run" where
  "session env wo =
     seq (await env Launch) (\<lambda>_.
     seq (await env NewContext) (\<lambda>_.
     seq (await env NewPage) (\<lambda>_.
       try_except (page_body env wo) (\<lambda>e. case e of
           TimeoutExc \<Rightarrow>
             Some (seq (logger TimeoutLoading) (\<lambda>_. seq (await env (Close 167)) (\<lambda>_. return None)))
         | OtherExc \<Rightarrow>
             Some (seq (logger ErrorLoading) (\<lambda>_. seq (await env (Close 172)) (\<lambda>_. return None)))
         | CancelledExc \<Rightarrow> None))))"

text \<open>
  \<open>async with\<close> awaits the exit of the Playwright context manager on every way out of its
  body: a return, an exception, a cancellation. The exit is an awaited call like the
  others; when it raises, its exception replaces the outcome of the body.
\<close>

definition async_with :: "unit_env \<Rightarrow> 'a run \<Rightarrow> 'a run" where
  "async_with env body =
     seq (await env Start) (\<lambda>_. case body of (t, r) \<Rightarrow>
       (case outcome_of env Stop of
          Ok \<Rightarrow> (t @ [Call Stop Ok], r)
        | Raises e \<Rightarrow> (t @ [Call Stop (Raises e)], Propagates e)))"

definition fetch_detail_html :: "unit_env \<Rightarrow> string \<Rightarrow> string option run" where
  "fetch_detail_html env wo =
     try_except (async_with env (session env wo)) (\<lambda>e. case e of
         CancelledExc \<Rightarrow> None
       | _ \<Rightarrow> Some (seq (logger InitFailed) (\<lambda>_. return None)))"



fun is_call :: "pw_call \<Rightarrow> event \<Rightarrow> bool" where
  "is_call c (Call c' r) = (c' = c)"
| "is_call c _ = False"


section \<open>One unit of work\<close>

definition process_wo_internal :: "html_parser \<Rightarrow> unit_env \<Rightarrow> string \<Rightarrow> biblio_record option run" where
  "process_wo_internal parser env wo =
     seq (fetch_detail_html env wo) (\<lambda>html. case html of
         None \<Rightarrow> return None
       | Some h \<Rightarrow>
           if h = [] then return None
           else (case parse_biblio_data parser (interrupt_of env) h wo of
                   Propagates e \<Rightarrow> raise e
                 | Returns data \<Rightarrow>
                     if \<not> extraction_successful data then return None else return (Some data)))"

text \<open>
  \<open>asyncio.wait_for\<close> turns the cancellation of the unit into \<open>asyncio.TimeoutError\<close>;
  \<open>process_wo_safe\<close> catches it, and every other exception, and returns \<open>None\<close>.
\<close>

definition process_wo_safe :: "html_parser \<Rightarrow> unit_env \<Rightarrow> string \<Rightarrow> event list \<times> biblio_record option" where
  "process_wo_safe parser env wo =
     (case process_wo_internal parser env wo of
        (t, Returns result) \<Rightarrow> (t, result)
      | (t, Propagates e) \<Rightarrow> (t, None))"

section \<open>Progress arithmetic\<close>

text \<open>
  \<open>int((i / total) * 100)\<close> is computed in binary64 floating point: the quotient of the
  two integers is rounded to the nearest double (ties to even), the product with 100 is
  rounded again, and \<open>int\<close> truncates. A positive double is kept as a pair \<open>(m, e)\<close> that
  stands for \<open>m * 2 ^ e\<close>; \<open>round_double a b\<close> is the double nearest to \<open>a / b\<close> for
  positive integers \<open>a\<close> and \<open>b\<close> whose quotient lies in the normal range (no overflow,
  no subnormal numbers), which covers every quotient \<open>i / total\<close> of a list index by a
  list length.
\<close>

function bitlen :: "int \<Rightarrow> int" where
  "bitlen n = (if n \<le> 0 then 0 else 1 + bitlen (n div 2))"
  by pat_completeness auto
termination
  by (relation "measure nat") auto

declare bitlen.simps [simp del]

definition round_double :: "int \<Rightarrow> int \<Rightarrow> int \<times> int" where
  "round_double a b =
     (let e0 = bitlen a - bitlen b - 53;
          num = (if e0 < 0 then a * 2 ^ nat (- e0) else a);
          den0 = (if e0 < 0 then b else b * 2 ^ nat e0);
          e = (if 2 ^ 53 * den0 \<le> num then e0 + 1 else e0);
          den = (if 2 ^ 53 * den0 \<le> num then 2 * den0 else den0);
          q = num div den;
          r = num mod den;
          m = (if 2 * r < den then q else if den < 2 * r then q + 1
               else if even q then q else q + 1)
      in (m, e))"

definition true_div :: "int \<Rightarrow> int \<Rightarrow> int \<times> int" where
  "true_div i n = round_double i n"

definition float_mul_int :: "int \<times> int \<Rightarrow> int \<Rightarrow> int \<times> int" where
  "float_mul_int x k =
     (case x of (m, e) \<Rightarrow>
        if e < 0 then round_double (m * k) (2 ^ nat (- e)) else round_double (m * k * 2 ^ nat e) 1)"

definition int_of_float :: "int \<times> int \<Rightarrow> int" where
  "int_of_float x = (case x of (m, e) \<Rightarrow> if e < 0 then m div 2 ^ nat (- e) else m * 2 ^ nat e)"

definition progress_pct :: "int \<Rightarrow> int \<Rightarrow> int" where
  "progress_pct i n = int_of_float (float_mul_int (true_div i n) 100)"

text \<open>The wording of the specification: \<open>round(i/total*100)\<close>, on exact numbers.\<close>

definition round_pct :: "int \<Rightarrow> int \<Rightarrow> int" where
  "round_pct i n = round (of_int i / of_int n * 100 :: rat)"

text \<open>\<open>str(n)\<close> for the non-negative integers that the progress message formats.\<close>

function str_int :: "int \<Rightarrow> string" where
  "str_int n = (if n < 10 then [''0123456789'' ! nat n]
                else str_int (n div 10) @ [''0123456789'' ! nat (n mod 10)])"
  by pat_completeness auto
termination
  by (relation "measure nat") auto

declare str_int.simps [simp del]

section \<open>The batch coordinator\<close>

text \<open>
  What \<open>search_wipo_patents\<close> does besides returning: the calls of the progress callback,
  the units of work it starts (with the events of each unit), and the pacing delays.
  The callback is an optional sink; \<open>progress_callback\<close> says whether one was given.
\<close>

datatype run_event = Progress int string | Unit string "event list" | Sleep

definition progress_message :: "string \<Rightarrow> int \<Rightarrow> int \<Rightarrow> string" where
  "progress_message wo i n = ''Processing '' @ wo @ '' ('' @ str_int i @ ''/'' @ str_int n @ '')''"

text \<open>
  The loop of lines 471 to 486 from index \<open>i\<close> on; \<open>envs i\<close> is the environment that the
  \<open>i\<close>-th unit meets.
\<close>

fun process_all ::
  "html_parser \<Rightarrow> (int \<Rightarrow> unit_env) \<Rightarrow> bool \<Rightarrow> int \<Rightarrow> int \<Rightarrow> string list
     \<Rightarrow> run_event list \<times> biblio_record list" where
  "process_all parser envs progress_callback n i [] = ([], [])"
| "process_all parser envs progress_callback n i (wo # rest) =
     (let report = (if progress_callback
                    then [Progress (progress_pct i n) (progress_message wo i n)] else []);
          (t, data) = process_wo_safe parser (envs i) wo;
          appended = (case data of None \<Rightarrow> [] | Some d \<Rightarrow> [d]);
          pause = (if i < n then [Sleep] else []);
          (events, results) = process_all parser envs progress_callback n (i + 1) rest
      in (report @ [Unit wo t] @ pause @ events, appended @ results))"

definition search_wipo_patents ::
  "html_parser \<Rightarrow> http_get \<Rightarrow> (int \<Rightarrow> unit_env) \<Rightarrow> string \<Rightarrow> string list option
     \<Rightarrow> string option \<Rightarrow> int \<Rightarrow> bool \<Rightarrow> run_event list \<times> biblio_record list" where
  "search_wipo_patents parser http envs molecule dev_codes cas max_results progress_callback =
     (let searching = (if progress_callback then [Progress 0 ''Searching WIPO...''] else []);
          wo_numbers = search_wipo_wo_numbers parser http molecule dev_codes cas max_results
      in if wo_numbers = [] then (searching, [])
         else
           let wo_numbers = py_slice_to max_results wo_numbers;
               n = int (length wo_numbers);
               (events, results) = process_all parser envs progress_callback n 1 wo_numbers
           in (searching @ events, results))"

fun unit_of :: "run_event \<Rightarrow> string list" where
  "unit_of (Unit wo t) = [wo]"
| "unit_of _ = []"

fun progress_of :: "run_event \<Rightarrow> (int \<times> string) list" where
  "progress_of (Progress pct message) = [(pct, message)]"
| "progress_of _ = []"

text \<open>\<open>enumerate(xs, i)\<close>: the index every identifier of the loop is paired with.\<close>

fun enumerate_from :: "int \<Rightarrow> 'a list \<Rightarrow> (int \<times> 'a) list" where
  "enumerate_from i [] = []"
| "enumerate_from i (x # xs) = (i, x) # enumerate_from (i + 1) xs"

text \<open>
  The identifiers the loop works through: the result of the search, cut to
  \<open>max_results\<close> once more (line 464).
\<close>

definition discovered ::
  "html_parser \<Rightarrow> http_get \<Rightarrow> string \<Rightarrow> string list option \<Rightarrow> string option \<Rightarrow> int \<Rightarrow> string list" where
  "discovered parser http molecule dev_codes cas max_results =
     py_slice_to max_results (search_wipo_wo_numbers parser http molecule dev_codes cas max_results)"

section \<open>Notions used in the statements\<close>

text \<open>A label of a field is present when some label element of the document matches it.\<close>

definition label_present :: "node \<Rightarrow> string \<Rightarrow> bool" where
  "label_present soup label_text = list_ex (is_label label_text) (descendants soup)"

text \<open>
  The resolution of a field in the words of the specification. Scalar fields: locate the
  first label element whose text matches the field name, ascend to its nearest ancestor
  that is a field container, locate the value element in the container, and read its
  text; a value whose strings are all blank is absent. Person lists: make the same pivot,
  locate the list of persons in the container and collect the name of every entry,
  skipping the entries with a blank name. Classification codes: make the same pivot and
  collect the link text of every classification entry of the container, in document
  order.
\<close>

definition first_of :: "'a list \<Rightarrow> 'a option" where
  "first_of xs = (case xs of [] \<Rightarrow> None | x # _ \<Rightarrow> Some x)"

definition blank :: "string \<Rightarrow> bool" where
  "blank s = list_all is_space s"

definition spec_container :: "node \<Rightarrow> string \<Rightarrow> node option" where
  "spec_container soup label_text =
     (case first_of (filter (\<lambda>(n, anc). is_label label_text n) (walk [] soup)) of
        None \<Rightarrow> None
      | Some (label, anc) \<Rightarrow> first_of (filter (is_tag ''div'' ''ps-field'') anc))"

definition spec_value :: "node \<Rightarrow> string \<Rightarrow> node option" where
  "spec_value soup label_text =
     (case spec_container soup label_text of
        None \<Rightarrow> None
      | Some fd \<Rightarrow> first_of (filter (is_tag ''span'' ''ps-field--value'') (descendants fd)))"

definition spec_scalar :: "node \<Rightarrow> string \<Rightarrow> string option" where
  "spec_scalar soup label_text =
     (case spec_value soup label_text of
        None \<Rightarrow> None
      | Some v \<Rightarrow> if list_all blank (strings v) then None else Some (get_text '' '' v))"

definition spec_persons :: "node \<Rightarrow> string \<Rightarrow> string list" where
  "spec_persons soup label_text =
     (case spec_container soup label_text of
        None \<Rightarrow> []
      | Some fd \<Rightarrow>
          (case first_of (filter (is_tag ''ul'' ''biblio-person-list'') (descendants fd)) of
             None \<Rightarrow> []
           | Some person_list \<Rightarrow>
               [get_text [] name.
                  entry \<leftarrow> descendants person_list, is_named ''li'' entry,
                  name \<leftarrow> take 1 (filter (is_tag ''span'' ''biblio-person-list--name'')
                                   (descendants entry)),
                  \<not> list_all blank (strings name)]))"

definition spec_codes :: "node \<Rightarrow> string list" where
  "spec_codes soup =
     (case spec_container soup ''IPC'' of
        None \<Rightarrow> []
      | Some fd \<Rightarrow>
          [get_text [] link.
             entry \<leftarrow> descendants fd, is_tag ''div'' ''patent-classification'' entry,
             link \<leftarrow> take 1 (filter (is_named ''a'') (descendants entry)),
             \<not> list_all blank (strings link)])"


definition scalar_labels :: "string list" where
  "scalar_labels =
     [''Publication Number'', ''Publication Date'', ''International Application No'',
      ''International Filing Date'', ''Title'', ''Abstract'', ''Priority Data'']"

text \<open>No resolution of the document yields a value.\<close>

definition nothing_resolves :: "node \<Rightarrow> bool" where
  "nothing_resolves soup =
     (list_all (\<lambda>l. spec_scalar soup l = None) scalar_labels \<and>
      spec_persons soup ''Applicants'' = [] \<and> spec_persons soup ''Inventors'' = [] \<and>
      spec_codes soup = [])"

text \<open>The field dictionary in which every scalar is \<open>None\<close> and every list is empty.\<close>

definition absent_fields :: "(string \<times> pyval) list" where
  "absent_fields =
     [(''publication_number'', PNone), (''publication_date'', PNone),
      (''application_number'', PNone), (''filing_date'', PNone), (''title'', PNone),
      (''abstract'', PNone), (''applicants'', PList []), (''inventors'', PList []),
      (''ipc_codes'', PList []), (''cpc_codes'', PList []), (''priority_data'', PNone)]"

text \<open>
  The session is set up and the navigation has completed; \<open>opened\<close> is the trace up to
  that point.
\<close>

definition session_ready :: "unit_env \<Rightarrow> string \<Rightarrow> bool" where
  "session_ready env wo =
     (outcome_of env Start = Ok \<and> outcome_of env Launch = Ok \<and> outcome_of env NewContext = Ok \<and>
      outcome_of env NewPage = Ok \<and> outcome_of env (Goto (DETAIL_URL @ ''?docId='' @ wo)) = Ok)"

definition opened :: "string \<Rightarrow> event list" where
  "opened wo = [Call Start Ok, Call Launch Ok, Call NewContext Ok, Call NewPage Ok,
     Call (Goto (DETAIL_URL @ ''?docId='' @ wo)) Ok]"

section \<open>Sample inputs\<close>

text \<open>A field container as the detail page renders it.\<close>

definition ps_field :: "string \<Rightarrow> node list \<Rightarrow> node" where
  "ps_field label_text v =
     Elem ''div'' [(''class'', ''ps-field ps-biblio-field'')]
       [Elem ''span'' [(''class'', ''ps-field--label'')] [Text label_text],
        Elem ''span'' [(''class'', ''ps-field--value'')] v]"

definition classification :: "string \<Rightarrow> node" where
  "classification code =
     Elem ''div'' [(''class'', ''patent-classification'')]
       [Elem ''a'' [(''href'', ''#'')] [Text code], Elem ''span'' [] [Text ''2006.1'']]"

definition result_page :: "node list" where
  "result_page =
     [Elem ''a'' [(''href'', ''detail.jsf?docId=WO2019028689'')] [Text ''1''],
      Elem ''a'' [(''href'', ''detail.jsf?docId=WO2018036558&x=1'')] [Text ''2''],
      Elem ''a'' [(''href'', ''/en/detail.jsf?docId=WO2019028689'')] [Text ''1 again''],
      Elem ''a'' [(''href'', ''detail.jsf?docId=WO2017000001'')] [Text ''3'']]"

definition detail_page :: "node list" where
  "detail_page =
     [ps_field ''Publication Number'' [Text '' WO/2019/028689 ''],
      ps_field ''Title'' [Text ''PYRAZOLE'', Elem ''b'' [] [Text '' DERIVATIVES '']]]"

definition detail_page_more :: "node list" where
  "detail_page_more = detail_page @ [ps_field ''Abstract'' [Text ''A compound.'']]"

definition person :: "string \<Rightarrow> node" where
  "person name =
     Elem ''li'' [] [Elem ''span'' [(''class'', ''biblio-person-list--name'')] [Text name]]"

definition person_field :: "string \<Rightarrow> string list \<Rightarrow> node" where
  "person_field label_text names =
     ps_field label_text
       [Elem ''span'' [(''class'', ''patent-person'')]
          [Elem ''ul'' [(''class'', ''biblio-person-list'')] (map person names)]]"

text \<open>
  A page without publication number and title: an abstract, a label \<open>Priority Data\<close>
  outside any field container, an applicant and an entry with a blank name, and a
  classification code.
\<close>

definition partial_page :: "node list" where
  "partial_page =
     [ps_field ''Abstract'' [Text '' A compound. ''],
      Elem ''span'' [(''class'', ''ps-field--label'')] [Text ''Priority Data''],
      person_field ''Applicants'' [''BAYER AG'', '' ''],
      ps_field ''IPC'' [classification ''C07D 231/14'']]"

text \<open>
  A page with labels on which nothing resolves to a value: a title whose value is blank
  and a list of applicants whose only entry has a blank name.
\<close>

definition blank_page :: "node list" where
  "blank_page =
     [ps_field ''Title'' [Text '' '', Comment ''x''], person_field ''Applicants'' ['' '']]"

definition class_page :: "node list" where
  "class_page =
     [ps_field ''IPC'' [classification ''C07D 231/14''],
      ps_field ''CPC'' [classification ''A61K 31/00'']]"

definition empty_page :: "node list" where
  "empty_page = [Elem ''p'' [] [Text ''No data'']]"

text \<open>The sample parser rejects the text \<open><![x]>\<close>, as \<open>html.parser\<close> does.\<close>

definition sample_parser :: html_parser where
  "sample_parser text =
     (if text = ''<![x]>'' then None
      else if text = ''results'' then Some result_page
      else if text = ''detail'' then Some detail_page
      else if text = ''more'' then Some detail_page_more
      else if text = ''partial'' then Some partial_page
      else if text = ''IPC CPC'' then Some class_page
      else if text = ''blank'' then Some blank_page
      else Some empty_page)"

definition sample_http :: http_get where
  "sample_http query = Some ''results''"

definition ok_env :: unit_env where
  "ok_env = \<lparr>outcome_of = (\<lambda>c. Ok), page_html = ''detail'', interrupt_of = Completes\<rparr>"

definition settle_timeout_env :: unit_env where
  "settle_timeout_env =
     ok_env\<lparr>outcome_of := (\<lambda>c. if c = NetworkIdle then Raises TimeoutExc else Ok)\<rparr>"

definition gate_timeout_env :: unit_env where
  "gate_timeout_env =
     ok_env\<lparr>outcome_of := (\<lambda>c. if c = Selector then Raises TimeoutExc else Ok)\<rparr>"

definition cancelled_env :: unit_env where
  "cancelled_env =
     ok_env\<lparr>outcome_of := (\<lambda>c. if c = Selector then Raises CancelledExc else Ok)\<rparr>"


definition sample_envs :: "int \<Rightarrow> unit_env" where
  "sample_envs i = (if i = 2 then gate_timeout_env else ok_env)"

section \<open>Facts about the helpers\<close>

lemma find_first_of: "List.find P xs = first_of (filter P xs)"
  by (induction xs) (simp_all add: first_of_def)

lemma take_1_filter: "take 1 (filter P xs) = (case List.find P xs of None \<Rightarrow> [] | Some x \<Rightarrow> [x])"
  by (induction xs) simp_all

lemma concat_map_filter:
  "concat (map f (filter P xs)) = concat (map (\<lambda>x. if P x then f x else []) xs)"
  by (induction xs) simp_all

lemma strip_Nil_iff: "strip s = [] \<longleftrightarrow> blank s"
proof
  assume "strip s = []"
  then have "\<forall>c \<in> set (dropWhile is_space s). is_space c"
    by (simp add: strip_def)
  then have "dropWhile is_space s = []"
    by (metis hd_dropWhile list.set_sel(1))
  then show "blank s"
    by (simp add: blank_def list_all_iff)
next
  assume "blank s"
  then have "dropWhile is_space s = []"
    by (simp add: blank_def list_all_iff)
  then show "strip s = []"
    unfolding strip_def by (simp del: dropWhile_eq_Nil_conv)
qed

lemma join_Nil_iff: "\<forall>x \<in> set xs. x \<noteq> [] \<Longrightarrow> join sep xs = [] \<longleftrightarrow> xs = []"
  by (induction sep xs rule: join.induct) auto

lemma get_text_Nil_iff: "get_text sep v = [] \<longleftrightarrow> list_all blank (strings v)"
proof -
  have "get_text sep v = [] \<longleftrightarrow> filter (\<lambda>s. s \<noteq> []) (map strip (strings v)) = []"
    unfolding get_text_def by (rule join_Nil_iff) simp
  also have "\<dots> \<longleftrightarrow> list_all blank (strings v)"
    by (simp add: filter_empty_conv list_all_iff strip_Nil_iff)
  finally show ?thesis .
qed

lemma field_div_spec: "field_div soup l = spec_container soup l"
  by (cases "first_of (filter (\<lambda>(n, anc). is_label l n) (walk [] soup))")
    (auto simp: field_div_def spec_container_def find_label_def find_first_of)

lemma extract_field_spec: "extract_field_by_label soup l = spec_scalar soup l"
  by (cases "spec_container soup l")
    (auto simp: extract_field_by_label_def spec_scalar_def spec_value_def field_div_spec
      find_first_of get_text_Nil_iff Let_def split: option.splits)

lemma first_text:
  "(case List.find P xs of
      None \<Rightarrow> []
    | Some s \<Rightarrow> (let text = get_text [] s in if text \<noteq> [] then [text] else [])) =
   concat (map (\<lambda>s. if \<not> list_all blank (strings s) then [get_text [] s] else [])
     (take 1 (filter P xs)))"
  by (induction xs) (simp_all add: get_text_Nil_iff Let_def)

lemma extract_list_spec: "extract_list_field soup l = spec_persons soup l"
proof (cases "spec_container soup l")
  case None
  then show ?thesis by (simp add: extract_list_field_def spec_persons_def field_div_spec)
next
  case (Some fd)
  show ?thesis
    by (cases "first_of (filter (is_tag ''ul'' ''biblio-person-list'') (descendants fd))")
      (simp_all add: extract_list_field_def spec_persons_def person_names_def field_div_spec
        Some find_first_of [of "is_tag ''ul'' ''biblio-person-list''"] concat_map_filter first_text
        cong: if_cong)
qed

lemma extract_ipc_spec: "extract_ipc_codes soup = spec_codes soup"
  by (cases "spec_container soup ''IPC''")
    (simp_all add: extract_ipc_codes_def spec_codes_def field_div_spec concat_map_filter
      first_text cong: if_cong)



lemma spec_scalar_nonempty: "spec_scalar soup l \<noteq> Some []"
  by (auto simp: spec_scalar_def get_text_Nil_iff split: option.splits)

lemma truthy_spec_scalar: "truthy (spec_scalar soup l) = (spec_scalar soup l \<noteq> None)"
  using spec_scalar_nonempty [of soup l] by (cases "spec_scalar soup l") auto

lemma present_opt_val: "present (Some (opt_val x)) = truthy x"
  by (cases x) auto

lemma parse_rejected:
  "parser html = None \<Longrightarrow> parse_biblio_data parser intr html wo = Propagates OtherExc"
  by (simp add: parse_biblio_data_def BeautifulSoup_def)

lemma parse_accepted:
  "parse_biblio_data parser intr html wo = Returns r \<Longrightarrow> \<exists>soup. BeautifulSoup parser html = Some soup"
  by (simp add: parse_biblio_data_def split: option.splits)

lemma parse_returns:
  "BeautifulSoup parser html = Some soup \<Longrightarrow> \<exists>r. parse_biblio_data parser intr html wo = Returns r"
  by (simp add: parse_biblio_data_def)

lemma biblio_data_assembled:
  "parse_biblio_data parser intr html wo = Returns r \<Longrightarrow> intr \<noteq> RaisesBeforeAssembly \<Longrightarrow>
   BeautifulSoup parser html = Some soup \<Longrightarrow>
   biblio_data r =
      [(''publication_number'', opt_val (spec_scalar soup ''Publication Number'')),
       (''publication_date'', opt_val (spec_scalar soup ''Publication Date'')),
       (''application_number'', opt_val (spec_scalar soup ''International Application No'')),
       (''filing_date'', opt_val (spec_scalar soup ''International Filing Date'')),
       (''title'', opt_val (spec_scalar soup ''Title'')),
       (''abstract'', opt_val (spec_scalar soup ''Abstract'')),
       (''applicants'', PList (spec_persons soup ''Applicants'')),
       (''inventors'', PList (spec_persons soup ''Inventors'')),
       (''ipc_codes'', PList (spec_codes soup)),
       (''cpc_codes'', PList (if py_in ''CPC'' html then spec_codes soup else [])),
       (''priority_data'', opt_val (spec_scalar soup ''Priority Data''))]"
  by (auto simp: parse_biblio_data_def Let_def extract_field_spec extract_list_spec
      extract_ipc_spec split: if_splits)

lemma flag_assembled:
  "parse_biblio_data parser intr html wo = Returns r \<Longrightarrow> intr \<noteq> RaisesBeforeAssembly \<Longrightarrow>
   BeautifulSoup parser html = Some soup \<Longrightarrow>
   extraction_successful r =
     (truthy (extract_field_by_label soup ''Publication Number'') \<and>
      truthy (extract_field_by_label soup ''Title''))"
  by (auto simp: parse_biblio_data_def Let_def split: if_splits)

lemma interrupted:
  "parse_biblio_data parser RaisesBeforeAssembly html wo = Returns r \<Longrightarrow>
   r = \<lparr>wo_number = wo, source = ''WIPO'', extraction_successful = False, biblio_data = []\<rparr>"
  by (auto simp: parse_biblio_data_def Let_def split: option.splits)

lemma parse_wo_number:
  "parse_biblio_data parser intr html wo = Returns r \<Longrightarrow> wo_number r = wo \<and> source r = ''WIPO''"
  by (auto simp: parse_biblio_data_def Let_def split: option.splits if_splits)

lemma flag_is_number_and_title:
  assumes "parse_biblio_data parser intr html wo = Returns r"
  shows "extraction_successful r =
     (present (field r ''publication_number'') \<and> present (field r ''title''))"
proof (cases "intr = RaisesBeforeAssembly")
  case True
  then show ?thesis using interrupted assms by (fastforce simp: field_def)
next
  case False
  obtain soup where soup: "BeautifulSoup parser html = Some soup"
    using parse_accepted [OF assms] by blast
  show ?thesis
    using biblio_data_assembled [OF assms False soup] flag_assembled [OF assms False soup]
    by (simp add: field_def present_opt_val extract_field_spec)
qed

section \<open>Facts about discovery\<close>

lemma foldl_fromkeys:
  "foldl (\<lambda>d k. if k \<in> set d then d else d @ [k]) acc xs
     = acc @ first_seen (filter (\<lambda>x. x \<notin> set acc) xs)"
proof (induction xs arbitrary: acc)
  case Nil
  then show ?case by simp
next
  case (Cons x xs)
  have "filter (\<lambda>y. y \<noteq> x) (filter (\<lambda>y. y \<notin> set acc) xs) = filter (\<lambda>y. y \<notin> set (acc @ [x])) xs"
    by (auto intro: filter_cong)
  then show ?case using Cons by simp
qed

lemma dict_fromkeys_first_seen: "dict_fromkeys xs = first_seen xs"
  by (simp add: dict_fromkeys_def foldl_fromkeys)

lemma set_first_seen: "set (first_seen xs) = set xs"
  by (induction xs rule: first_seen.induct) auto

lemma distinct_first_seen: "distinct (first_seen xs)"
  by (induction xs rule: first_seen.induct) (auto simp: set_first_seen)

lemma py_slice_to_Nil: "py_slice_to k [] = []"
  by (simp add: py_slice_to_def)

lemma discovered_nonneg:
  "0 \<le> max_results \<Longrightarrow>
   discovered parser http molecule dev_codes cas max_results =
     search_wipo_wo_numbers parser http molecule dev_codes cas max_results"
  by (auto simp: discovered_def search_wipo_wo_numbers_def py_slice_to_def split: option.splits)

section \<open>Facts about acquisition\<close>

lemma seq_Returns: "seq (t, Returns a) f = (case f a of (t', r) \<Rightarrow> (t @ t', r))"
  by (simp add: seq_def)

lemma seq_Propagates: "seq (t, Propagates e) f = (t, Propagates e)"
  by (simp add: seq_def)

lemma await_Ok: "outcome_of env c = Ok \<Longrightarrow> await env c = ([Call c Ok], Returns ())"
  by (simp add: await_def attempt_def return_def seq_Returns)


lemmas run_simps =
  fetch_detail_html_def async_with_def session_def page_body_def attempt_def logger_def
  return_def raise_def try_except_def seq_Returns seq_Propagates











lemma process_wo_safe_result:
  "snd (process_wo_safe parser env wo) =
     (case snd (fetch_detail_html env wo) of
        Returns (Some h) \<Rightarrow>
          (case parse_biblio_data parser (interrupt_of env) h wo of
             Returns data \<Rightarrow> if h \<noteq> [] \<and> extraction_successful data then Some data else None
           | Propagates e \<Rightarrow> None)
      | _ \<Rightarrow> None)"
proof -
  obtain t r where f: "fetch_detail_html env wo = (t, r)" by (cases "fetch_detail_html env wo")
  show ?thesis
    by (cases r)
      (auto simp: process_wo_safe_def process_wo_internal_def f return_def raise_def Let_def
        seq_Returns seq_Propagates split: option.splits completion.splits)
qed

lemma process_wo_safe_Some:
  assumes "snd (process_wo_safe parser env wo) = Some d"
  shows "extraction_successful d \<and> wo_number d = wo"
  using assms parse_wo_number unfolding process_wo_safe_result
  by (fastforce split: completion.splits option.splits if_splits)

section \<open>Facts about the loop\<close>

lemma process_all_Cons_events:
  "fst (process_all parser envs cb n i (w # ws)) =
     (if cb then [Progress (progress_pct i n) (progress_message w i n)] else [])
     @ [Unit w (fst (process_wo_safe parser (envs i) w))]
     @ (if i < n then [Sleep] else [])
     @ fst (process_all parser envs cb n (i + 1) ws)"
  by (simp add: Let_def case_prod_beta)

lemma process_all_Cons_results:
  "snd (process_all parser envs cb n i (w # ws)) =
     (case snd (process_wo_safe parser (envs i) w) of None \<Rightarrow> [] | Some d \<Rightarrow> [d])
     @ snd (process_all parser envs cb n (i + 1) ws)"
  by (simp add: Let_def case_prod_beta)

lemma process_all_units:
  "concat (map unit_of (fst (process_all parser envs cb n i ws))) = ws"
  by (induction ws arbitrary: i) (simp_all add: process_all_Cons_events del: process_all.simps(2))

lemma process_all_results:
  "snd (process_all parser envs cb n i ws) =
     concat (map (\<lambda>(j, w). case snd (process_wo_safe parser (envs j) w) of
                             None \<Rightarrow> [] | Some d \<Rightarrow> [d])
       (enumerate_from i ws))"
  by (induction ws arbitrary: i) (simp_all add: process_all_Cons_results del: process_all.simps(2))

lemma process_all_progress:
  "concat (map progress_of (fst (process_all parser envs True n i ws))) =
     map (\<lambda>(j, w). (progress_pct j n, progress_message w j n)) (enumerate_from i ws)"
  by (induction ws arbitrary: i) (simp_all add: process_all_Cons_events del: process_all.simps(2))

lemma process_all_no_progress:
  "concat (map progress_of (fst (process_all parser envs False n i ws))) = []"
  by (induction ws arbitrary: i) (simp_all add: process_all_Cons_events del: process_all.simps(2))

lemma process_all_succeeded:
  "d \<in> set (snd (process_all parser envs cb n i ws)) \<Longrightarrow> extraction_successful d"
proof (induction ws arbitrary: i)
  case Nil
  then show ?case by simp
next
  case (Cons w ws)
  then show ?case
    using process_wo_safe_Some [of parser "envs i" w]
    by (auto simp: process_all_Cons_results simp del: process_all.simps(2) split: option.splits)
qed

lemma process_all_order:
  "subseq (map wo_number (snd (process_all parser envs cb n i ws))) ws"
proof (induction ws arbitrary: i)
  case Nil
  then show ?case by simp
next
  case (Cons w ws)
  show ?case
  proof (cases "snd (process_wo_safe parser (envs i) w)")
    case None
    then show ?thesis using Cons [of "i + 1"]
      by (auto simp: process_all_Cons_results simp del: process_all.simps(2))
  next
    case (Some d)
    then have "wo_number d = w" using process_wo_safe_Some [of parser "envs i" w d] by simp
    then show ?thesis using Cons [of "i + 1"] Some
      by (simp add: process_all_Cons_results del: process_all.simps(2))
  qed
qed

lemma enumerate_from_indices:
  "map fst (enumerate_from i xs) = [i..i + int (length xs) - 1]"
proof (induction xs arbitrary: i)
  case Nil
  then show ?case by simp
next
  case (Cons x xs)
  have "[i..i + int (length (x # xs)) - 1] = i # [i + 1..i + 1 + int (length xs) - 1]"
    by (subst upto_rec1) simp_all
  then show ?case using Cons [of "i + 1"] by simp
qed

lemma run_events:
  "fst (search_wipo_patents parser http envs molecule dev_codes cas max_results cb) =
     (if cb then [Progress 0 ''Searching WIPO...''] else []) @
     fst (process_all parser envs cb
            (int (length (discovered parser http molecule dev_codes cas max_results))) 1
            (discovered parser http molecule dev_codes cas max_results))"
  by (simp add: search_wipo_patents_def discovered_def Let_def case_prod_beta py_slice_to_Nil)

lemma run_results:
  "snd (search_wipo_patents parser http envs molecule dev_codes cas max_results cb) =
     snd (process_all parser envs cb
            (int (length (discovered parser http molecule dev_codes cas max_results))) 1
            (discovered parser http molecule dev_codes cas max_results))"
  by (simp add: search_wipo_patents_def discovered_def Let_def case_prod_beta py_slice_to_Nil)

lemma run_progress:
  "concat (map progress_of
     (fst (search_wipo_patents parser http envs molecule dev_codes cas max_results True))) =
   (0, ''Searching WIPO...'') #
   map (\<lambda>(j, w).
          (progress_pct j (int (length (discovered parser http molecule dev_codes cas max_results))),
           progress_message w j
             (int (length (discovered parser http molecule dev_codes cas max_results)))))
     (enumerate_from 1 (discovered parser http molecule dev_codes cas max_results))"
  by (simp add: run_events process_all_progress)

section \<open>The sample inputs, evaluated\<close>

lemma sample_soups:
  "BeautifulSoup sample_parser ''results'' = Some (Elem ''[document]'' [] result_page)"
  "BeautifulSoup sample_parser ''detail'' = Some (Elem ''[document]'' [] detail_page)"
  "BeautifulSoup sample_parser ''more'' = Some (Elem ''[document]'' [] detail_page_more)"
  "BeautifulSoup sample_parser ''partial'' = Some (Elem ''[document]'' [] partial_page)"
  "BeautifulSoup sample_parser ''IPC CPC'' = Some (Elem ''[document]'' [] class_page)"
  "BeautifulSoup sample_parser ''blank'' = Some (Elem ''[document]'' [] blank_page)"
  by (simp_all add: BeautifulSoup_def sample_parser_def)

lemma sample_rejected: "sample_parser ''<![x]>'' = None"
  by (simp add: sample_parser_def)

lemma sample_links:
  "link_wo_numbers (Elem ''[document]'' [] result_page) =
     [''WO2019028689'', ''WO2018036558'', ''WO2019028689'', ''WO2017000001'']"
  by code_simp

lemma sample_first_seen:
  "first_seen [''WO2019028689'', ''WO2018036558'', ''WO2019028689'', ''WO2017000001''] =
     [''WO2019028689'', ''WO2018036558'', ''WO2017000001'']"
  by simp

lemma sample_search:
  "0 \<le> k \<Longrightarrow>
   search_wipo_wo_numbers sample_parser sample_http molecule dev_codes cas k =
     take (nat k) [''WO2019028689'', ''WO2018036558'', ''WO2017000001'']"
  by (simp add: search_wipo_wo_numbers_def sample_http_def sample_soups sample_links
      dict_fromkeys_first_seen py_slice_to_def del: first_seen.simps add: sample_first_seen)

lemma sample_discovered:
  "discovered sample_parser sample_http molecule dev_codes cas 5 =
     [''WO2019028689'', ''WO2018036558'', ''WO2017000001'']"
  by (simp add: discovered_nonneg sample_search)

lemma detail_number:
  "spec_scalar (Elem ''[document]'' [] detail_page) ''Publication Number'' = Some ''WO/2019/028689''"
  by code_simp

lemma detail_title:
  "spec_scalar (Elem ''[document]'' [] detail_page) ''Title'' = Some ''PYRAZOLE DERIVATIVES''"
  by code_simp

lemma detail_abstract: "spec_scalar (Elem ''[document]'' [] detail_page) ''Abstract'' = None"
  by code_simp

lemma more_number:
  "spec_scalar (Elem ''[document]'' [] detail_page_more) ''Publication Number'' =
     Some ''WO/2019/028689''"
  by code_simp

lemma more_title:
  "spec_scalar (Elem ''[document]'' [] detail_page_more) ''Title'' = Some ''PYRAZOLE DERIVATIVES''"
  by code_simp

lemma more_abstract:
  "spec_scalar (Elem ''[document]'' [] detail_page_more) ''Abstract'' = Some ''A compound.''"
  by code_simp









lemma partial_no_cpc: "\<not> py_in ''CPC'' ''partial''"
  by code_simp

lemma class_page_ipc:
  "extract_ipc_codes (Elem ''[document]'' [] class_page) = [''C07D 231/14'']"
  by code_simp

lemma class_page_has_cpc: "py_in ''CPC'' ''IPC CPC''"
  by code_simp

lemma class_page_cpc_label: "label_present (Elem ''[document]'' [] class_page) ''CPC''"
  by code_simp

lemma blank_page_labels:
  "label_present (Elem ''[document]'' [] blank_page) ''Title''"
  "label_present (Elem ''[document]'' [] blank_page) ''Applicants''"
  by code_simp+

lemma blank_page_resolves_nothing: "nothing_resolves (Elem ''[document]'' [] blank_page)"
  by code_simp

lemma sample_percents:
  "progress_pct 1 3 = 33" "progress_pct 2 3 = 66" "progress_pct 3 3 = 100"
  by code_simp+

lemma sample_messages:
  "progress_message ''WO2019028689'' 1 3 = ''Processing WO2019028689 (1/3)''"
  "progress_message ''WO2018036558'' 2 3 = ''Processing WO2018036558 (2/3)''"
  "progress_message ''WO2017000001'' 3 3 = ''Processing WO2017000001 (3/3)''"
  by code_simp+

lemma sample_rounded: "round_pct 2 3 = 67"
  by code_simp

lemma ok_env_fetch:
  "fetch_detail_html ok_env wo =
     (opened wo @ [Call NetworkIdle Ok, Call Selector Ok, Call Content Ok, Call (Close 160) Ok,
        Log Loaded, Call Stop Ok],
      Returns (Some ''detail''))"
  by (simp add: run_simps await_Ok ok_env_def opened_def)

lemma gate_timeout_env_fetch:
  "fetch_detail_html gate_timeout_env wo =
     (opened wo @ [Call NetworkIdle Ok, Call Selector (Raises TimeoutExc), Log NeverAppeared,
        Call (Close 155) Ok, Call Stop Ok],
      Returns None)"
  by (simp add: run_simps await_Ok gate_timeout_env_def ok_env_def opened_def)

lemma cancelled_env_fetch:
  "fetch_detail_html cancelled_env wo =
     (opened wo @ [Call NetworkIdle Ok, Call Selector (Raises CancelledExc), Call Stop Ok],
      Propagates CancelledExc)"
  by (simp add: run_simps await_Ok cancelled_env_def ok_env_def opened_def)



lemma detail_parse:
  "\<exists>r. parse_biblio_data sample_parser Completes ''detail'' wo = Returns r \<and>
       extraction_successful r \<and> wo_number r = wo"
proof -
  obtain r where r: "parse_biblio_data sample_parser Completes ''detail'' wo = Returns r"
    using parse_returns [OF sample_soups(2)] by blast
  have "extraction_successful r"
    using flag_assembled [OF r _ sample_soups(2)]
    by (simp add: extract_field_spec detail_number detail_title)
  then show ?thesis using r parse_wo_number [OF r] by simp
qed

lemma ok_env_unit:
  "\<exists>r. snd (process_wo_safe sample_parser ok_env wo) = Some r \<and> wo_number r = wo"
proof -
  have "interrupt_of ok_env = Completes" by (simp add: ok_env_def)
  then show ?thesis
    using detail_parse [of wo] by (auto simp: process_wo_safe_result ok_env_fetch)
qed

lemma gate_timeout_env_unit: "snd (process_wo_safe sample_parser gate_timeout_env wo) = None"
  by (simp add: process_wo_safe_result gate_timeout_env_fetch)

lemma cancelled_env_unit: "snd (process_wo_safe sample_parser cancelled_env wo) = None"
  by (simp add: process_wo_safe_result cancelled_env_fetch)

lemma run_no_progress:
  "concat (map progress_of
     (fst (search_wipo_patents parser http envs molecule dev_codes cas max_results False))) = []"
  by (simp add: run_events process_all_no_progress)

section \<open>The batch coordinator: claims\<close>

text \<open>
  C1. \<open>search_wipo_patents\<close> starts one unit of work for every discovered identifier, in
  the order of discovery, whatever the units meet. The result is the list of the
  records that the units return, in that order: a unit returns a record exactly when the
  page was fetched, is not empty and its extraction succeeded, and returns nothing when
  acquisition fails, when the parser raises, when the success flag is false, or when the
  unit is cancelled at the wall-clock ceiling. Every returned record has the flag set, and the identifiers of the
  returned records are a subsequence of the discovered ones. The function is total:
  no outcome of a unit makes it stop early or raise.
\<close>

theorem batch_processes_every_identifier:
  "concat (map unit_of
     (fst (search_wipo_patents parser http envs molecule dev_codes cas max_results cb))) =
     discovered parser http molecule dev_codes cas max_results
   \<and> snd (search_wipo_patents parser http envs molecule dev_codes cas max_results cb) =
       concat (map (\<lambda>(i, wo). case snd (process_wo_safe parser (envs i) wo) of
                                 None \<Rightarrow> [] | Some d \<Rightarrow> [d])
         (enumerate_from 1 (discovered parser http molecule dev_codes cas max_results)))
   \<and> (\<forall>d \<in> set (snd (search_wipo_patents parser http envs molecule dev_codes cas max_results cb)).
         extraction_successful d)
   \<and> subseq
        (map wo_number
           (snd (search_wipo_patents parser http envs molecule dev_codes cas max_results cb)))
        (discovered parser http molecule dev_codes cas max_results)
   \<and> (0 \<le> max_results \<longrightarrow>
         discovered parser http molecule dev_codes cas max_results =
           search_wipo_wo_numbers parser http molecule dev_codes cas max_results)
   \<and> snd (process_wo_safe parser env wo) =
       (case snd (fetch_detail_html env wo) of
          Returns (Some h) \<Rightarrow>
            (case parse_biblio_data parser (interrupt_of env) h wo of
               Returns data \<Rightarrow> if h \<noteq> [] \<and> extraction_successful data then Some data else None
             | Propagates e \<Rightarrow> None)
        | _ \<Rightarrow> None)"
proof -
  have "\<forall>d \<in> set (snd (search_wipo_patents parser http envs molecule dev_codes cas max_results cb)).
          extraction_successful d"
    using process_all_succeeded by (auto simp: run_results)
  then show ?thesis
    using run_events [of parser http envs molecule dev_codes cas max_results cb]
      process_all_units process_all_results process_all_order
      discovered_nonneg [of max_results parser http molecule dev_codes cas]
      process_wo_safe_result [of parser env wo]
    by (simp add: run_results)
qed

theorem batch_processes_every_identifier_witness:
  "concat (map unit_of
     (fst (search_wipo_patents sample_parser sample_http sample_envs ''darolutamide''
        (Some [''ODM-201'', ''BAY-1841788'']) None 5 True))) =
     [''WO2019028689'', ''WO2018036558'', ''WO2017000001'']
   \<and> map wo_number
       (snd (search_wipo_patents sample_parser sample_http sample_envs ''darolutamide''
          (Some [''ODM-201'', ''BAY-1841788'']) None 5 True)) =
     [''WO2019028689'', ''WO2017000001'']
   \<and> list_all extraction_successful
       (snd (search_wipo_patents sample_parser sample_http sample_envs ''darolutamide''
          (Some [''ODM-201'', ''BAY-1841788'']) None 5 True))
   \<and> snd (process_wo_safe sample_parser (sample_envs 2) ''WO2018036558'') = None"
proof -
  obtain r1 where r1: "snd (process_wo_safe sample_parser ok_env ''WO2019028689'') = Some r1"
      "wo_number r1 = ''WO2019028689''"
    using ok_env_unit by blast
  obtain r3 where r3: "snd (process_wo_safe sample_parser ok_env ''WO2017000001'') = Some r3"
      "wo_number r3 = ''WO2017000001''"
    using ok_env_unit by blast
  show ?thesis
    using batch_processes_every_identifier [of sample_parser sample_http sample_envs
        "''darolutamide''" "Some [''ODM-201'', ''BAY-1841788'']" None 5 True "sample_envs 2"
        "''WO2018036558''"] r1 r3
    by (simp add: sample_discovered sample_envs_def gate_timeout_env_unit
        gate_timeout_env_fetch list_all_iff)
qed

text \<open>
  C4, as amended. With a callback given, the calls are: one call \<open>(0, "Searching WIPO...")\<close>,
  then for the identifiers with indices 1 to \<open>total\<close>, in increasing order of the index,
  one call each with the percentage \<open>int((i / total) * 100)\<close>, the double-precision product
  truncated towards zero. With no callback given there is no call.
\<close>

theorem progress_callbacks_in_index_order:
  "concat (map progress_of
     (fst (search_wipo_patents parser http envs molecule dev_codes cas max_results True))) =
   (0, ''Searching WIPO...'') #
   map (\<lambda>(i, wo).
          (progress_pct i (int (length (discovered parser http molecule dev_codes cas max_results))),
           progress_message wo i
             (int (length (discovered parser http molecule dev_codes cas max_results)))))
     (enumerate_from 1 (discovered parser http molecule dev_codes cas max_results))
   \<and> map fst (enumerate_from 1 (discovered parser http molecule dev_codes cas max_results)) =
       [1..int (length (discovered parser http molecule dev_codes cas max_results))]
   \<and> concat (map progress_of
       (fst (search_wipo_patents parser http envs molecule dev_codes cas max_results False))) = []"
  using enumerate_from_indices [of 1 "discovered parser http molecule dev_codes cas max_results"]
  by (simp add: run_progress run_no_progress)

theorem progress_callbacks_in_index_order_witness:
  "concat (map progress_of
     (fst (search_wipo_patents sample_parser sample_http sample_envs ''darolutamide''
        (Some [''ODM-201'', ''BAY-1841788'']) None 5 True))) =
     [(0, ''Searching WIPO...''),
      (33, ''Processing WO2019028689 (1/3)''),
      (66, ''Processing WO2018036558 (2/3)''),
      (100, ''Processing WO2017000001 (3/3)'')]"
  using progress_callbacks_in_index_order [of sample_parser sample_http sample_envs
      "''darolutamide''" "Some [''ODM-201'', ''BAY-1841788'']" None 5]
  by (simp add: sample_discovered sample_percents sample_messages)

text \<open>
  C4, as stated, fails: for the second of three identifiers the callback receives 66,
  and \<open>round(2/3*100)\<close> is 67.
\<close>

theorem progress_is_not_rounded_counterexample:
  "map fst (concat (map progress_of
     (fst (search_wipo_patents sample_parser sample_http sample_envs ''darolutamide''
        (Some [''ODM-201'', ''BAY-1841788'']) None 5 True)))) = [0, 33, 66, 100]
   \<and> round_pct 2 3 = 67"
  by (simp add: run_progress sample_discovered sample_percents sample_rounded)

section \<open>Discovery: claims\<close>

text \<open>
  C5. For a search specification (whose \<open>max_results\<close> is not negative), the identifiers
  that \<open>search_wipo_wo_numbers\<close> returns are at most \<open>max_results\<close>, no identifier occurs
  twice, and they are the first \<open>max_results\<close> identifiers of the response in first-seen
  order: the duplicates are dropped first, keeping the first occurrence, and the list
  is cut afterwards. A failed request, or a body the parser rejects, gives the empty list.
\<close>

theorem discovery_bounded_distinct_first_seen:
  assumes "0 \<le> max_results"
  shows "length (search_wipo_wo_numbers parser http molecule dev_codes cas max_results)
           \<le> nat max_results
     \<and> distinct (search_wipo_wo_numbers parser http molecule dev_codes cas max_results)
     \<and> search_wipo_wo_numbers parser http molecule dev_codes cas max_results =
        (case http (search_query molecule dev_codes cas) of
           None \<Rightarrow> []
         | Some text \<Rightarrow>
             (case BeautifulSoup parser text of
                None \<Rightarrow> []
              | Some soup \<Rightarrow> take (nat max_results) (first_seen (link_wo_numbers soup))))"
  using assms
  by (auto simp: search_wipo_wo_numbers_def py_slice_to_def dict_fromkeys_first_seen
      distinct_first_seen split: option.splits)

theorem discovery_bounded_distinct_first_seen_witness:
  "(0::int) \<le> 2
   \<and> search_wipo_wo_numbers sample_parser sample_http ''darolutamide''
       (Some [''ODM-201'', ''BAY-1841788'']) None 2 = [''WO2019028689'', ''WO2018036558'']
   \<and> length (search_wipo_wo_numbers sample_parser sample_http ''darolutamide''
       (Some [''ODM-201'', ''BAY-1841788'']) None 2) \<le> nat 2
   \<and> distinct (search_wipo_wo_numbers sample_parser sample_http ''darolutamide''
       (Some [''ODM-201'', ''BAY-1841788'']) None 2)"
proof -
  have h: "(0::int) \<le> 2" by simp
  show ?thesis
    using discovery_bounded_distinct_first_seen [OF h, of sample_parser sample_http
        "''darolutamide''" "Some [''ODM-201'', ''BAY-1841788'']" None]
    by (simp add: sample_http_def sample_soups sample_links sample_first_seen
        del: first_seen.simps)
qed

section \<open>Extraction: claims\<close>

text \<open>
  C2. In the record that \<open>parse_biblio_data\<close> returns, the success flag is true exactly
  when the fields \<open>publication_number\<close> and \<open>title\<close> both hold a non-empty string. Hence two
  returned records that agree on these two fields have the same flag, whatever their
  other fields are. When field assembly completes, the flag is true exactly when the
  resolutions of the labels \<open>Publication Number\<close> and \<open>Title\<close> both give a value.
\<close>

theorem extraction_successful_iff_number_and_title:
  assumes "parse_biblio_data parser intr html wo = Returns r"
  shows "extraction_successful r =
     (present (field r ''publication_number'') \<and> present (field r ''title''))
   \<and> (parse_biblio_data parser' intr' html' wo' = Returns r' \<and>
      field r' ''publication_number'' = field r ''publication_number'' \<and>
      field r' ''title'' = field r ''title'' \<longrightarrow>
      extraction_successful r' = extraction_successful r)
   \<and> (intr \<noteq> RaisesBeforeAssembly \<and> BeautifulSoup parser html = Some soup \<longrightarrow>
        extraction_successful r =
          (extract_field_by_label soup ''Publication Number'' \<noteq> None \<and>
           extract_field_by_label soup ''Title'' \<noteq> None))"
proof (intro conjI impI)
  show "extraction_successful r =
     (present (field r ''publication_number'') \<and> present (field r ''title''))"
    using assms by (rule flag_is_number_and_title)
next
  assume "parse_biblio_data parser' intr' html' wo' = Returns r' \<and>
      field r' ''publication_number'' = field r ''publication_number'' \<and>
      field r' ''title'' = field r ''title''"
  then show "extraction_successful r' = extraction_successful r"
    using flag_is_number_and_title [OF assms]
      flag_is_number_and_title [of parser' intr' html' wo' r'] by simp
next
  assume "intr \<noteq> RaisesBeforeAssembly \<and> BeautifulSoup parser html = Some soup"
  then show "extraction_successful r =
          (extract_field_by_label soup ''Publication Number'' \<noteq> None \<and>
           extract_field_by_label soup ''Title'' \<noteq> None)"
    using flag_assembled [OF assms, of soup]
    by (simp add: extract_field_spec truthy_spec_scalar)
qed

theorem extraction_successful_iff_number_and_title_witness:
  "map_option extraction_successful
     (returned (parse_biblio_data sample_parser Completes ''more'' ''WO2019028689'')) = Some True
   \<and> map_option extraction_successful
     (returned (parse_biblio_data sample_parser Completes ''detail'' ''WO2019028689'')) = Some True
   \<and> map_option (\<lambda>r. field r ''abstract'')
     (returned (parse_biblio_data sample_parser Completes ''more'' ''WO2019028689''))
       = Some (Some (PStr ''A compound.''))
   \<and> map_option (\<lambda>r. field r ''abstract'')
     (returned (parse_biblio_data sample_parser Completes ''detail'' ''WO2019028689''))
       = Some (Some PNone)"
proof -
  obtain r where r: "parse_biblio_data sample_parser Completes ''detail'' ''WO2019028689'' = Returns r"
    using parse_returns [OF sample_soups(2)] by blast
  obtain r' where r': "parse_biblio_data sample_parser Completes ''more'' ''WO2019028689'' = Returns r'"
    using parse_returns [OF sample_soups(3)] by blast
  show ?thesis
    using extraction_successful_iff_number_and_title [OF r, of sample_parser Completes "''more''"
        "''WO2019028689''" r' "Elem ''[document]'' [] detail_page"]
      biblio_data_assembled [OF r _ sample_soups(2)]
      biblio_data_assembled [OF r' _ sample_soups(3)]
    by (simp add: r r' field_def sample_soups extract_field_spec detail_number detail_title
        detail_abstract more_number more_title more_abstract)
qed

text \<open>
  C3. When field assembly completes, \<open>cpc_codes\<close> is the result of the IPC-anchored
  extraction if the raw document text contains \<open>CPC\<close>, and the empty list otherwise;
  \<open>ipc_codes\<close> is the result of the same extraction, so the two fields are equal whenever
  \<open>CPC\<close> occurs in the text. No label \<open>CPC\<close> is looked up.
\<close>

theorem cpc_codes_follow_ipc_path:
  assumes "parse_biblio_data parser intr html wo = Returns r"
    and "intr \<noteq> RaisesBeforeAssembly"
    and "BeautifulSoup parser html = Some soup"
  shows "field r ''cpc_codes'' =
           Some (PList (if py_in ''CPC'' html then extract_ipc_codes soup else []))
       \<and> field r ''ipc_codes'' = Some (PList (extract_ipc_codes soup))
       \<and> (py_in ''CPC'' html \<longrightarrow> field r ''cpc_codes'' = field r ''ipc_codes'')"
  using biblio_data_assembled [OF assms] by (simp add: field_def extract_ipc_spec)

theorem cpc_codes_follow_ipc_path_witness:
  "label_present (Elem ''[document]'' [] class_page) ''CPC''
   \<and> map_option (\<lambda>r. field r ''cpc_codes'')
       (returned (parse_biblio_data sample_parser Completes ''IPC CPC'' ''WO2019028689''))
       = Some (Some (PList [''C07D 231/14'']))
   \<and> map_option (\<lambda>r. field r ''ipc_codes'')
       (returned (parse_biblio_data sample_parser Completes ''IPC CPC'' ''WO2019028689''))
       = Some (Some (PList [''C07D 231/14'']))"
proof -
  obtain r where r: "parse_biblio_data sample_parser Completes ''IPC CPC'' ''WO2019028689'' = Returns r"
    using parse_returns [OF sample_soups(5)] by blast
  have h: "Completes \<noteq> RaisesBeforeAssembly" by simp
  show ?thesis
    using cpc_codes_follow_ipc_path [OF r h sample_soups(5)]
    by (simp add: r class_page_ipc class_page_has_cpc class_page_cpc_label)
qed



text \<open>
  C7. The constructor of the soup stands before the \<open>try\<close> of \<open>parse_biblio_data\<close>: when the
  parser rejects the markup, the exception leaves \<open>parse_biblio_data\<close>. When the parser
  accepts the markup and no resolution of the document yields a value (a label, a
  container, a value element or a list is missing, or the value is blank),
  \<open>parse_biblio_data\<close> returns the record with the flag false and, when field assembly
  completes, every scalar field \<open>None\<close> and every list field empty.
\<close>

theorem parse_biblio_data_raises_on_rejected_markup:
  "(parser html = None \<longrightarrow> parse_biblio_data parser intr html wo = Propagates OtherExc)
   \<and> (BeautifulSoup parser html = Some soup \<and> nothing_resolves soup \<longrightarrow>
        parse_biblio_data parser intr html wo =
          Returns \<lparr>wo_number = wo, source = ''WIPO'', extraction_successful = False,
            biblio_data = (if intr = RaisesBeforeAssembly then [] else absent_fields)\<rparr>)"
proof (intro conjI impI)
  assume "parser html = None"
  then show "parse_biblio_data parser intr html wo = Propagates OtherExc"
    by (rule parse_rejected)
next
  assume "BeautifulSoup parser html = Some soup \<and> nothing_resolves soup"
  then show "parse_biblio_data parser intr html wo =
      Returns \<lparr>wo_number = wo, source = ''WIPO'', extraction_successful = False,
        biblio_data = (if intr = RaisesBeforeAssembly then [] else absent_fields)\<rparr>"
    by (simp add: parse_biblio_data_def Let_def extract_field_spec extract_list_spec
        extract_ipc_spec nothing_resolves_def scalar_labels_def absent_fields_def)
qed

theorem parse_biblio_data_raises_on_rejected_markup_witness:
  "parse_biblio_data sample_parser Completes ''<![x]>'' ''WO2019028689'' = Propagates OtherExc
   \<and> label_present (Elem ''[document]'' [] blank_page) ''Title''
   \<and> label_present (Elem ''[document]'' [] blank_page) ''Applicants''
   \<and> parse_biblio_data sample_parser Completes ''blank'' ''WO2019028689'' =
       Returns \<lparr>wo_number = ''WO2019028689'', source = ''WIPO'', extraction_successful = False,
         biblio_data = absent_fields\<rparr>"
  using parse_biblio_data_raises_on_rejected_markup [where parser = sample_parser
      and html = "''<![x]>''" and intr = Completes and wo = "''WO2019028689''"]
    parse_biblio_data_raises_on_rejected_markup [where parser = sample_parser
      and html = "''blank''" and intr = Completes and wo = "''WO2019028689''"
      and soup = "Elem ''[document]'' [] blank_page"]
  by (simp add: sample_rejected sample_soups blank_page_resolves_nothing blank_page_labels)

text \<open>
  C10. A record that \<open>parse_biblio_data\<close> returns carries the identifier it was called with
  and the source tag \<open>WIPO\<close>, whatever happens inside the \<open>try\<close>. When an exception interrupts
  field assembly, the flag is false and \<open>biblio_data\<close> is the empty dictionary; otherwise
  \<open>biblio_data\<close> has its eleven keys.
\<close>

theorem record_always_identified:
  assumes "parse_biblio_data parser intr html wo = Returns r"
  shows "wo_number r = wo \<and> source r = ''WIPO'' \<and>
   (intr = RaisesBeforeAssembly \<longrightarrow> \<not> extraction_successful r \<and> biblio_data r = []) \<and>
   (intr \<noteq> RaisesBeforeAssembly \<longrightarrow>
      map fst (biblio_data r) =
        [''publication_number'', ''publication_date'', ''application_number'', ''filing_date'',
         ''title'', ''abstract'', ''applicants'', ''inventors'', ''ipc_codes'', ''cpc_codes'',
         ''priority_data''])"
proof -
  obtain soup where soup: "BeautifulSoup parser html = Some soup"
    using parse_accepted [OF assms] by blast
  show ?thesis
  proof (cases "intr = RaisesBeforeAssembly")
    case True
    then have "r = \<lparr>wo_number = wo, source = ''WIPO'', extraction_successful = False,
        biblio_data = []\<rparr>"
      using interrupted assms by blast
    then show ?thesis using True by simp
  next
    case False
    then show ?thesis
      using parse_wo_number [OF assms] biblio_data_assembled [OF assms False soup] by simp
  qed
qed

theorem record_always_identified_witness:
  "map_option wo_number
     (returned (parse_biblio_data sample_parser RaisesBeforeAssembly ''detail'' ''WO2019028689''))
     = Some ''WO2019028689''
   \<and> map_option source
     (returned (parse_biblio_data sample_parser RaisesBeforeAssembly ''detail'' ''WO2019028689''))
     = Some ''WIPO''
   \<and> map_option extraction_successful
     (returned (parse_biblio_data sample_parser RaisesBeforeAssembly ''detail'' ''WO2019028689''))
     = Some False
   \<and> map_option biblio_data
     (returned (parse_biblio_data sample_parser RaisesBeforeAssembly ''detail'' ''WO2019028689''))
     = Some []
   \<and> map_option (\<lambda>r. map fst (biblio_data r))
     (returned (parse_biblio_data sample_parser Completes ''detail'' ''WO2019028689''))
     = Some [''publication_number'', ''publication_date'', ''application_number'', ''filing_date'',
        ''title'', ''abstract'', ''applicants'', ''inventors'', ''ipc_codes'', ''cpc_codes'',
        ''priority_data'']"
proof -
  obtain r where r: "parse_biblio_data sample_parser RaisesBeforeAssembly ''detail'' ''WO2019028689'' = Returns r"
    using parse_returns [OF sample_soups(2)] by blast
  obtain r' where r': "parse_biblio_data sample_parser Completes ''detail'' ''WO2019028689'' = Returns r'"
    using parse_returns [OF sample_soups(2)] by blast
  show ?thesis
    using record_always_identified [OF r] record_always_identified [OF r']
    by (simp add: r r')
qed

section \<open>Acquisition: claims\<close>

text \<open>
  C8. In a call of \<open>fetch_detail_html\<close> whose session is set up, whose navigation
  completes and whose exit of \<open>async with\<close> completes: a timeout of the network-idle wait
  is logged and the call goes on to wait for the marker, and returns the page when the
  marker appears; a timeout of the wait for the marker, after a network-idle wait that
  completed or timed out, is followed by \<open>browser.close()\<close> and the result \<open>None\<close>, with one
  wait for the marker and no second navigation in the trace.
\<close>

theorem settle_timeout_continues_gate_timeout_fails:
  assumes "session_ready env wo" and "outcome_of env Stop = Ok"
  shows "(outcome_of env NetworkIdle = Raises TimeoutExc \<and> outcome_of env Selector = Ok \<and>
          outcome_of env Content = Ok \<and> outcome_of env (Close 160) = Ok \<longrightarrow>
            fetch_detail_html env wo =
              (opened wo @ [Call NetworkIdle (Raises TimeoutExc), Log NetworkIdleTimeout,
                 Call Selector Ok, Call Content Ok, Call (Close 160) Ok, Log Loaded, Call Stop Ok],
               Returns (Some (page_html env))))
       \<and> (outcome_of env NetworkIdle = Raises TimeoutExc \<and>
          outcome_of env Selector = Raises TimeoutExc \<and> outcome_of env (Close 155) = Ok \<longrightarrow>
            fetch_detail_html env wo =
              (opened wo @ [Call NetworkIdle (Raises TimeoutExc), Log NetworkIdleTimeout,
                 Call Selector (Raises TimeoutExc), Log NeverAppeared, Call (Close 155) Ok,
                 Call Stop Ok],
               Returns None))
       \<and> (outcome_of env NetworkIdle = Ok \<and>
          outcome_of env Selector = Raises TimeoutExc \<and> outcome_of env (Close 155) = Ok \<longrightarrow>
            fetch_detail_html env wo =
              (opened wo @ [Call NetworkIdle Ok,
                 Call Selector (Raises TimeoutExc), Log NeverAppeared, Call (Close 155) Ok,
                 Call Stop Ok],
               Returns None))"
  using assms
  by (simp add: session_ready_def opened_def run_simps await_Ok)

theorem settle_timeout_continues_gate_timeout_fails_witness:
  "session_ready settle_timeout_env ''WO2019028689''
   \<and> snd (fetch_detail_html settle_timeout_env ''WO2019028689'') = Returns (Some ''detail'')
   \<and> session_ready gate_timeout_env ''WO2018036558''
   \<and> snd (fetch_detail_html gate_timeout_env ''WO2018036558'') = Returns None
   \<and> length (filter (is_call Selector) (fst (fetch_detail_html gate_timeout_env ''WO2018036558'')))
       = 1"
proof -
  have a: "session_ready settle_timeout_env ''WO2019028689''"
    by (simp add: session_ready_def settle_timeout_env_def ok_env_def)
  have a': "outcome_of settle_timeout_env Stop = Ok"
    by (simp add: settle_timeout_env_def ok_env_def)
  have b: "session_ready gate_timeout_env ''WO2018036558''"
    by (simp add: session_ready_def gate_timeout_env_def ok_env_def)
  have b': "outcome_of gate_timeout_env Stop = Ok"
    by (simp add: gate_timeout_env_def ok_env_def)
  show ?thesis
    using a b settle_timeout_continues_gate_timeout_fails [OF a a']
      settle_timeout_continues_gate_timeout_fails [OF b b']
    by (simp add: settle_timeout_env_def gate_timeout_env_def ok_env_def opened_def)
qed




end
